theory Spec2Isabelle
  imports Complex_Main "HOL-Library.AList" "HOL-Library.Multiset" "HOL-Library.Word"
begin

section \<open>Shared vocabulary: exceptions and user-interface output\<close>

text \<open>
  Python exceptions are values.  Only the classes the script can meet are listed; an error
  coming out of one of the external libraries is \<open>LibraryError\<close> with its message.
\<close>

datatype exn =
    ValueError string
  | IndexError string
  | ZeroDivisionError string
  | AttributeError string
  | DisambiguationError string
  | PageError string
  | LibraryError string

fun exn_str :: "exn \<Rightarrow> string" where
  "exn_str (ValueError m) = m"
| "exn_str (IndexError m) = m"
| "exn_str (ZeroDivisionError m) = m"
| "exn_str (AttributeError m) = m"
| "exn_str (DisambiguationError m) = m"
| "exn_str (PageError m) = m"
| "exn_str (LibraryError m) = m"

text \<open>
  Every call into the widget library that shows something is one event; a run of the script
  yields the list of its events in order.  \<open>St_write_percent c p\<close> stands for
  \<open>st.write(f"{c}: {p:.2f}%")\<close>: the number is kept instead of its two-decimal rendering.
\<close>

datatype ui_event =
    St_write string
  | St_write_percent string rat
  | St_warning string
  | St_error string
  | St_subheader string
  | St_image
  | St_pyplot
  | Tts_say string

section \<open>Static reference data\<close>

definition categories :: "string list" where
  "categories = [''glioma'', ''meningioma'', ''no tumor'', ''pituitary'']"

text \<open>A Python dict keeps insertion order: it is an association list with distinct keys.\<close>

definition symptoms :: "(string \<times> string list) list" where
  "symptoms =
    [(''Glioma'',
       [''Headaches'',
        ''Seizures'',
        ''Vision problems'',
        ''Nausea and vomiting'',
        ''Difficulty with balance and coordination'',
        ''Changes in personality or behavior'',
        ''Weakness or numbness in limbs'']),
     (''Meningioma'',
       [''Headaches'',
        ''Seizures'',
        ''Vision changes'',
        ''Hearing loss or ringing in the ears'',
        ''Nausea and vomiting'',
        ''Weakness or numbness'',
        ''Difficulty with speech or movement'']),
     (''No Tumor'',
       [''No specific symptoms related to a tumor; symptoms are typically related to other conditions.'']),
     (''Pituitary Tumor'',
       [''Headaches'',
        ''Vision problems'',
        ''Unexplained weight gain or loss'',
        ''Changes in menstrual cycle or sexual function'',
        ''Growth of hands and feet (in case of acromegaly)'',
        ''Fatigue'',
        ''Changes in mood or cognitive functions''])]"

section \<open>Builtins of the language used by the script\<close>

text \<open>\<open>max(xs)\<close> and \<open>np.max(xs)\<close>: the greatest element, \<open>ValueError\<close> on an empty argument.\<close>

fun py_max :: "'a::linorder list \<Rightarrow> exn + 'a" where
  "py_max [] = Inl (ValueError ''max() arg is an empty sequence'')"
| "py_max (x # xs) = Inr (fold max xs x)"

text \<open>\<open>sep.join(xs)\<close>.\<close>

fun join :: "string \<Rightarrow> string list \<Rightarrow> string" where
  "join sep [] = []"
| "join sep [x] = x"
| "join sep (x # y # ys) = x @ sep @ join sep (y # ys)"

section \<open>The symptom scorer (mode "Diagnosis Test")\<close>

text \<open>
  The form: one checkbox per distinct symptom text, in order of first appearance in the
  table.  \<open>checkbox\<close> is the state of the widgets on this run, by key.
\<close>

fun add_checkboxes :: "(string \<Rightarrow> bool) \<Rightarrow> string list \<Rightarrow> (string \<times> bool) list \<Rightarrow> (string \<times> bool) list" where
  "add_checkboxes checkbox [] symptom_selection = symptom_selection"
| "add_checkboxes checkbox (symptom # rest) symptom_selection =
     (if symptom \<notin> set (map fst symptom_selection)
      then add_checkboxes checkbox rest (symptom_selection @ [(symptom, checkbox symptom)])
      else add_checkboxes checkbox rest symptom_selection)"

definition build_symptom_selection :: "(string \<times> string list) list \<Rightarrow> (string \<Rightarrow> bool) \<Rightarrow> (string \<times> bool) list" where
  "build_symptom_selection table checkbox =
     fold (\<lambda>symptom_list symptom_selection. add_checkboxes checkbox symptom_list symptom_selection)
          (map snd table) []"

definition selected_of :: "(string \<times> bool) list \<Rightarrow> string list" where
  "selected_of symptom_selection = map fst (filter snd symptom_selection)"

text \<open>\<open>sum(1 for symptom in selected_symptoms if symptom in symptom_list)\<close>.\<close>

definition match_count :: "string list \<Rightarrow> string list \<Rightarrow> nat" where
  "match_count selected_symptoms symptom_list =
     sum_list (map (\<lambda>symptom. 1) (filter (\<lambda>symptom. symptom \<in> set symptom_list) selected_symptoms))"

text \<open>
  \<open>(match_count / len(symptom_list)) * 100\<close>.  Python computes it in binary floating point;
  the model computes the exact quotient.  On the table above the two agree on every
  comparison the script makes: the quotients are \<open>k/7\<close> and \<open>k/1\<close>, equal counts over equal
  lengths give the same float, and \<open>k/7 * 100\<close> is a whole number only for \<open>k = 0\<close> and
  \<open>k = 7\<close>, where it is exact.
\<close>

definition probability_of :: "string list \<Rightarrow> string list \<Rightarrow> rat" where
  "probability_of selected_symptoms symptom_list =
     (of_nat (match_count selected_symptoms symptom_list) / of_nat (length symptom_list)) * 100"

text \<open>
  The loop over \<open>symptoms.items()\<close>, writing into the dict \<open>probabilities\<close>.  A condition
  with an empty list would divide by zero.
\<close>

fun score_loop :: "(string \<times> string list) list \<Rightarrow> string list \<Rightarrow> (string \<times> rat) list \<Rightarrow> exn + (string \<times> rat) list" where
  "score_loop [] selected_symptoms probabilities = Inr probabilities"
| "score_loop ((condition, symptom_list) # rest) selected_symptoms probabilities =
     (if length symptom_list = 0 then Inl (ZeroDivisionError ''division by zero'')
      else score_loop rest selected_symptoms
             (AList.update condition (probability_of selected_symptoms symptom_list) probabilities))"

text \<open>\<open>probabilities = {condition: 0 for condition in symptoms.keys()}\<close>, then the loop.\<close>

definition score :: "string list \<Rightarrow> exn + (string \<times> rat) list" where
  "score selected_symptoms =
     score_loop symptoms selected_symptoms (map (\<lambda>condition. (condition, 0)) (map fst symptoms))"

definition clash_message :: string where
  "clash_message = ''There may be a clash between multiple conditions. Please consult a doctor.''"

definition no_match_message :: string where
  "no_match_message = ''No matching conditions found. Please consult a doctor for further evaluation.''"

definition select_one_message :: string where
  "select_one_message = ''Please select at least one symptom.''"

text \<open>The two closing warnings: the tie test comes first, the zero test only in its \<open>elif\<close>.\<close>

definition closing_warning :: "rat list \<Rightarrow> rat \<Rightarrow> ui_event list" where
  "closing_warning values max_prob =
     (if count_list values max_prob > 1 then [St_warning clash_message]
      else if max_prob = 0 then [St_warning no_match_message]
      else [])"

text \<open>
  What pressing "Diagnose" does with the list of selected symptoms: the events shown, and
  the exception that ends the run, if any.
\<close>

definition diagnose :: "string list \<Rightarrow> ui_event list \<times> exn option" where
  "diagnose selected_symptoms =
     (if selected_symptoms = [] then ([St_warning select_one_message], None)
      else
        let shown = [St_write (''Selected Symptoms: '' @ join '', '' selected_symptoms)] in
        case score selected_symptoms of
          Inl e \<Rightarrow> (shown, Some e)
        | Inr probabilities \<Rightarrow>
            (case py_max (map snd probabilities) of
               Inl e \<Rightarrow> (shown, Some e)
             | Inr max_prob \<Rightarrow>
                 (shown @ [St_write ''Diagnosis Result:'']
                    @ map (\<lambda>(condition, probability). St_write_percent condition probability) probabilities
                    @ closing_warning (map snd probabilities) max_prob,
                  None)))"

text \<open>
  The branch of the mode: the form, then the button.  The header and the prompt above the
  form are the same on every run and are not among the events.
\<close>

definition diagnosis_test :: "(string \<Rightarrow> bool) \<Rightarrow> bool \<Rightarrow> ui_event list \<times> exn option" where
  "diagnosis_test checkbox diagnose_pressed =
     (let symptom_selection = build_symptom_selection symptoms checkbox in
      if diagnose_pressed then diagnose (selected_of symptom_selection) else ([], None))"

text \<open>Readers of a run's output.\<close>

fun shown_percentages :: "ui_event list \<Rightarrow> (string \<times> rat) list" where
  "shown_percentages [] = []"
| "shown_percentages (St_write_percent c p # out) = (c, p) # shown_percentages out"
| "shown_percentages (_ # out) = shown_percentages out"

fun shown_warnings :: "ui_event list \<Rightarrow> string list" where
  "shown_warnings [] = []"
| "shown_warnings (St_warning w # out) = w # shown_warnings out"
| "shown_warnings (_ # out) = shown_warnings out"

text \<open>
  The percentage in the spec's words: the condition's listed symptoms that appear in the
  selected set, over the number listed, times 100.
\<close>

definition spec_percentage :: "string set \<Rightarrow> string list \<Rightarrow> rat" where
  "spec_percentage selected symptom_list =
     of_nat (length (filter (\<lambda>s. s \<in> selected) symptom_list)) / of_nat (length symptom_list) * 100"

section \<open>The image pipeline (mode "Tumor Detection")\<close>

subsection \<open>The outside world\<close>

text \<open>
  The script calls pydicom, PIL, numpy, Keras, LIME, wikipedia and pyttsx3.  None of them is
  part of the repository: each entry point the script uses is a field of the record below,
  and a call that can raise returns a sum with the exception on the left.  The types of
  files, decoded images and LIME explanations stay abstract.  \<open>np_array\<close> is
  \<open>np.array(img)\<close> for an image of mode RGB: rows, columns and three channels of
  \<open>uint8\<close>.  The array of an image of another mode has another rank, channel count or sample
  type; it stays abstract, as \<open>np_array_other\<close>.
\<close>

record dataset =
  Modality :: "string option"

type_synonym tensor3 = "rat list list list"
type_synonym tensor4 = "rat list list list list"
type_synonym pixels = "8 word list list list"

datatype 'arr nd_array = Rgb_array pixels | Other_array 'arr

record ('file, 'img, 'arr, 'expl) world =
  dcmread :: "'file \<Rightarrow> exn + dataset"
  image_open :: "'file \<Rightarrow> exn + 'img"
  pil_mode :: "'img \<Rightarrow> string"
  pil_convert :: "'img \<Rightarrow> string \<Rightarrow> 'img"
  pil_resize :: "'img \<Rightarrow> nat \<times> nat \<Rightarrow> 'img"
  np_array :: "'img \<Rightarrow> pixels"
  np_array_other :: "'img \<Rightarrow> 'arr"
  model_predict :: "tensor4 \<Rightarrow> exn + rat list list"
  lime_explain_instance :: "'arr nd_array \<Rightarrow> (tensor4 \<Rightarrow> exn + rat list list) \<Rightarrow> exn + 'expl"
  lime_get_image_and_mask :: "'expl \<Rightarrow> exn option"
  wikipedia_summary :: "string \<Rightarrow> exn + string"
  engine_say :: "string \<Rightarrow> exn option"




subsection \<open>numpy on nested lists\<close>



text \<open>\<open>np.array(img) / 255.0\<close>: every \<open>uint8\<close> sample becomes the quotient.\<close>

definition scale255 :: "8 word \<Rightarrow> rat" where
  "scale255 v = of_nat (unat v) / 255"

definition divide_255 :: "pixels \<Rightarrow> tensor3" where
  "divide_255 a = map (map (map scale255)) a"


text \<open>\<open>np.expand_dims(a, axis=0)\<close>.\<close>

definition expand_dims0 :: "'a \<Rightarrow> 'a list" where
  "expand_dims0 a = [a]"

text \<open>The position of the first occurrence of \<open>v\<close>.\<close>

fun index_of :: "'a \<Rightarrow> 'a list \<Rightarrow> nat" where
  "index_of v [] = 0"
| "index_of v (x # xs) = (if x = v then 0 else Suc (index_of v xs))"

text \<open>\<open>np.argmax(a)\<close>: the first position of the maximum of the flattened array.\<close>

definition np_argmax :: "rat list list \<Rightarrow> exn + nat" where
  "np_argmax a =
     (case py_max (concat a) of
        Inl e \<Rightarrow> Inl (ValueError ''attempt to get argmax of an empty sequence'')
      | Inr m \<Rightarrow> Inr (index_of m (concat a)))"

text \<open>\<open>xs[i]\<close> for an index that is not negative.\<close>

definition list_get :: "'a list \<Rightarrow> nat \<Rightarrow> exn + 'a" where
  "list_get xs i = (if i < length xs then Inr (xs ! i) else Inl (IndexError ''list index out of range''))"

subsection \<open>The functions of the script\<close>

definition preprocess_image :: "('file, 'img, 'arr, 'expl) world \<Rightarrow> 'img \<Rightarrow> tensor4" where
  "preprocess_image w picture =
     (let picture = (if pil_mode w picture \<noteq> ''RGB'' then pil_convert w picture ''RGB'' else picture);
          img = pil_resize w picture (150, 150);
          img_array = divide_255 (np_array w img);
          img_array = expand_dims0 img_array
      in img_array)"

text \<open>The body of the outer \<open>try\<close> of \<open>is_valid_mri\<close>: read the container, then its tag.\<close>

definition dicom_attempt :: "('file, 'img, 'arr, 'expl) world \<Rightarrow> 'file \<Rightarrow> exn + bool" where
  "dicom_attempt w file =
     (case dcmread w file of
        Inl e \<Rightarrow> Inl e
      | Inr dicom_file \<Rightarrow>
          (case Modality dicom_file of
             None \<Rightarrow> Inl (AttributeError ''Modality'')
           | Some m \<Rightarrow> Inr (m = ''MR'')))"

definition is_valid_mri :: "('file, 'img, 'arr, 'expl) world \<Rightarrow> 'file \<Rightarrow> ui_event list \<times> bool" where
  "is_valid_mri w file =
     (case dicom_attempt w file of
        Inr is_mr \<Rightarrow> ([], is_mr)
      | Inl e \<Rightarrow>
          (case image_open w file of
             Inr picture \<Rightarrow> ([], True)
           | Inl e' \<Rightarrow> ([St_warning (''Image validation failed: '' @ exn_str e')], False)))"

text \<open>The body of the \<open>try\<close> of \<open>predict\<close>.\<close>

definition inference :: "('file, 'img, 'arr, 'expl) world \<Rightarrow> tensor4 \<Rightarrow> exn + string \<times> rat" where
  "inference w preprocessed_image =
     (case model_predict w preprocessed_image of
        Inl e \<Rightarrow> Inl e
      | Inr predictions \<Rightarrow>
          (case py_max (concat predictions) of
             Inl e \<Rightarrow> Inl e
           | Inr confidence \<Rightarrow>
               (case np_argmax predictions of
                  Inl e \<Rightarrow> Inl e
                | Inr i \<Rightarrow>
                    (case list_get categories i of
                       Inl e \<Rightarrow> Inl e
                     | Inr tumor_type \<Rightarrow> Inr (tumor_type, confidence)))))"

definition predict :: "('file, 'img, 'arr, 'expl) world \<Rightarrow> 'img \<Rightarrow> ui_event list \<times> string option \<times> rat option" where
  "predict w picture =
     (let preprocessed_image = preprocess_image w picture in
      case inference w preprocessed_image of
        Inr (tumor_type, confidence) \<Rightarrow> ([], Some tumor_type, Some confidence)
      | Inl e \<Rightarrow> ([St_error (''Error in prediction: '' @ exn_str e)], None, None))"

text \<open>
  \<open>np.array(image.resize((150, 150)))\<close>, the array handed to LIME, which perturbs it and
  calls \<open>model.predict\<close> on the copies.  The picture is resized as it is, in its own mode.
\<close>

definition explain_input :: "('file, 'img, 'arr, 'expl) world \<Rightarrow> 'img \<Rightarrow> 'arr nd_array" where
  "explain_input w picture =
     (let img = pil_resize w picture (150, 150) in
      if pil_mode w img = ''RGB'' then Rgb_array (np_array w img)
      else Other_array (np_array_other w img))"

definition explain_prediction :: "('file, 'img, 'arr, 'expl) world \<Rightarrow> 'img \<Rightarrow> ui_event list" where
  "explain_prediction w picture =
     (case lime_explain_instance w (explain_input w picture) (model_predict w) of
        Inl e \<Rightarrow> [St_error (''Error in explanation: '' @ exn_str e)]
      | Inr explanation \<Rightarrow>
          St_subheader ''OUTPUT of the SCAN :'' #
          (case lime_get_image_and_mask w explanation of
             Some e \<Rightarrow> [St_error (''Error in explanation: '' @ exn_str e)]
           | None \<Rightarrow> [St_pyplot]))"

definition get_tumor_info :: "('file, 'img, 'arr, 'expl) world \<Rightarrow> string \<Rightarrow> exn + string" where
  "get_tumor_info w tumor_type =
     (case wikipedia_summary w tumor_type of
        Inr summary \<Rightarrow> Inr summary
      | Inl (DisambiguationError m) \<Rightarrow>
          Inr (''Multiple results found for '' @ tumor_type @ ''. Please specify further.'')
      | Inl (PageError m) \<Rightarrow>
          Inr (''No information found on Wikipedia for '' @ tumor_type @ ''.'')
      | Inl e \<Rightarrow> Inl e)"

definition speak_text :: "('file, 'img, 'arr, 'expl) world \<Rightarrow> string \<Rightarrow> ui_event list" where
  "speak_text w text =
     (case engine_say w text of
        None \<Rightarrow> [Tts_say text]
      | Some e \<Rightarrow> [St_error (''Error with TTS: '' @ exn_str e)])"

text \<open>
  What follows a prediction that is truthy: its display, the explanation, the lookup and
  the speech.  An exception of the lookup other than the two it handles ends the run.
\<close>

definition after_prediction :: "('file, 'img, 'arr, 'expl) world \<Rightarrow> 'img \<Rightarrow> string \<Rightarrow> ui_event list \<times> exn option" where
  "after_prediction w picture prediction =
     (let shown = [St_write (''Prediction: '' @ prediction)] @ explain_prediction w picture in
      case get_tumor_info w prediction of
        Inl e \<Rightarrow> (shown, Some e)
      | Inr tumor_info \<Rightarrow>
          (shown @ [St_write (''Tumor Information: '' @ tumor_info)] @ speak_text w tumor_info, None))"

text \<open>\<open>if prediction:\<close> is false for \<open>None\<close> and for the empty string.\<close>

fun truthy :: "string option \<Rightarrow> bool" where
  "truthy None = False"
| "truthy (Some s) = (s \<noteq> [])"

definition on_predict_pressed :: "('file, 'img, 'arr, 'expl) world \<Rightarrow> 'img \<Rightarrow> ui_event list \<times> exn option" where
  "on_predict_pressed w picture =
     (case predict w picture of
        (shown, prediction, confidence) \<Rightarrow>
          if truthy prediction
          then (case after_prediction w picture (the prediction) of
                  (later, raised) \<Rightarrow> (shown @ later, raised))
          else (shown, None))"

definition tumor_detection :: "('file, 'img, 'arr, 'expl) world \<Rightarrow> 'file option \<Rightarrow> bool \<Rightarrow> ui_event list \<times> exn option" where
  "tumor_detection w uploaded_file predict_pressed =
     (case uploaded_file of
        None \<Rightarrow> ([], None)
      | Some file \<Rightarrow>
          (case is_valid_mri w file of
             (shown, valid) \<Rightarrow>
               if valid
               then (case image_open w file of
                       Inl e \<Rightarrow> (shown, Some e)
                     | Inr picture \<Rightarrow>
                         if predict_pressed
                         then (case on_predict_pressed w picture of
                                 (later, raised) \<Rightarrow> (shown @ [St_image] @ later, raised))
                         else (shown @ [St_image], None))
               else (shown @ [St_error ''Invalid MRI image. Please upload a valid MRI image.''], None)))"

text \<open>The events of the stages after the classifier: explanation, lookup, speech.\<close>

fun downstream :: "ui_event \<Rightarrow> bool" where
  "downstream (St_write s) = True"
| "downstream (St_subheader s) = True"
| "downstream St_pyplot = True"
| "downstream (Tts_say s) = True"
| "downstream (St_error s) = (take 20 s \<noteq> ''Error in prediction:'')"
| "downstream _ = False"

section \<open>A small concrete world\<close>

text \<open>
  Concrete stand-ins for the libraries, on which the functions above can be run: files are
  names, a picture is a mode with a grid of RGB triples, resizing takes for each target
  pixel the source pixel under its centre (PIL's nearest-neighbour filter), and the
  classifier answers with a fixed vector.  \<open>scan.dcm\<close> is a container
  tagged \<open>MR\<close>, \<open>photo.jpg\<close> a plain raster image, every other file is unreadable.
\<close>

type_synonym toy_picture = "string \<times> (8 word \<times> 8 word \<times> 8 word) list list"

definition nth_or :: "'a \<Rightarrow> 'a list \<Rightarrow> nat \<Rightarrow> 'a" where
  "nth_or d xs i = (if i < length xs then xs ! i else d)"

definition sample_row :: "'a \<Rightarrow> 'a list \<Rightarrow> nat \<Rightarrow> 'a list" where
  "sample_row d row wd =
     map (\<lambda>x. nth_or d row (((2 * x + 1) * length row) div (2 * wd))) [0..<wd]"

definition toy_resize :: "toy_picture \<Rightarrow> nat \<times> nat \<Rightarrow> toy_picture" where
  "toy_resize img sz =
     (fst img,
      map (\<lambda>y. sample_row (0, 0, 0)
                   (nth_or [] (snd img) (((2 * y + 1) * length (snd img)) div (2 * snd sz)))
                   (fst sz))
          [0..<snd sz])"

definition toy_array :: "toy_picture \<Rightarrow> pixels" where
  "toy_array img = map (map (\<lambda>(r, g, b). [r, g, b])) (snd img)"


definition toy_picture :: toy_picture where
  "toy_picture = (''RGB'', [[(0, 128, 255), (3, 2, 1)]])"

definition toy_world :: "(string, toy_picture, unit, unit) world" where
  "toy_world =
     \<lparr>dcmread = (\<lambda>f. if f = ''scan.dcm'' then Inr \<lparr>Modality = Some ''MR''\<rparr>
                     else if f = ''photo.jpg'' then Inr \<lparr>Modality = None\<rparr>
                     else Inl (LibraryError ''unreadable'')),
      image_open = (\<lambda>f. if f = ''photo.jpg'' then Inr toy_picture
                        else Inl (LibraryError ''cannot identify image file'')),
      pil_mode = fst,
      pil_convert = (\<lambda>img m. (m, snd img)),
      pil_resize = toy_resize,
      np_array = toy_array,
      np_array_other = (\<lambda>img. ()),
      model_predict = (\<lambda>t. Inr [[1 / 10, 7 / 10, 1 / 10, 1 / 10]]),
      lime_explain_instance = (\<lambda>a classifier_fn. Inr ()),
      lime_get_image_and_mask = (\<lambda>explanation. None),
      wikipedia_summary = (\<lambda>title. Inr ''A summary.''),
      engine_say = (\<lambda>t. None)\<rparr>"

definition failing_world :: "(string, toy_picture, unit, unit) world" where
  "failing_world = toy_world\<lparr>model_predict := (\<lambda>t. Inl (LibraryError ''out of memory''))\<rparr>"

section \<open>Facts about the scorer\<close>

lemma match_count_length:
  "match_count sel sl = length (filter (\<lambda>s. s \<in> set sl) sel)"
  unfolding match_count_def by (induction sel) simp_all

lemma score_unfold:
  "score sel =
     Inr [(''Glioma'', probability_of sel (snd (symptoms ! 0))),
          (''Meningioma'', probability_of sel (snd (symptoms ! 1))),
          (''No Tumor'', probability_of sel (snd (symptoms ! 2))),
          (''Pituitary Tumor'', probability_of sel (snd (symptoms ! 3)))]"
  unfolding score_def symptoms_def by simp

lemma score_map:
  "score sel = Inr (map (\<lambda>(condition, symptom_list). (condition, probability_of sel symptom_list)) symptoms)"
  unfolding score_unfold by (simp add: symptoms_def)


lemma probability_of_perm:
  assumes "mset sel = mset sel'"
  shows "probability_of sel sl = probability_of sel' sl"
proof -
  from assms have "mset (filter (\<lambda>s. s \<in> set sl) sel) = mset (filter (\<lambda>s. s \<in> set sl) sel')"
    by simp
  then have "length (filter (\<lambda>s. s \<in> set sl) sel) = length (filter (\<lambda>s. s \<in> set sl) sel')"
    by (rule mset_eq_length)
  then show ?thesis
    unfolding probability_of_def match_count_length by simp
qed

lemma filter_mem_swap:
  assumes "distinct xs" "distinct ys"
  shows "length (filter (\<lambda>x. x \<in> set ys) xs) = length (filter (\<lambda>y. y \<in> set xs) ys)"
proof -
  have "length (filter (\<lambda>x. x \<in> set ys) xs) = card (set ys \<inter> set xs)"
    using assms(1) by (simp add: distinct_length_filter)
  also have "\<dots> = card (set xs \<inter> set ys)" by (simp add: Int_commute)
  also have "\<dots> = length (filter (\<lambda>y. y \<in> set xs) ys)"
    using assms(2) by (simp add: distinct_length_filter)
  finally show ?thesis .
qed

lemma symptom_lists_distinct: "(c, sl) \<in> set symptoms \<Longrightarrow> distinct sl \<and> sl \<noteq> []"
  unfolding symptoms_def by auto

lemma probability_of_spec:
  assumes "distinct sel" "distinct sl"
  shows "probability_of sel sl = spec_percentage (set sel) sl"
  unfolding probability_of_def spec_percentage_def match_count_length
  using filter_mem_swap [OF assms] by simp



lemma shown_warnings_append: "shown_warnings (xs @ ys) = shown_warnings xs @ shown_warnings ys"
  by (induction xs rule: shown_warnings.induct) simp_all

lemma shown_warnings_percent:
  "shown_warnings (map (\<lambda>(condition, probability). St_write_percent condition probability) probs) = []"
  by (induction probs) auto

lemma shown_percentages_append:
  "shown_percentages (xs @ ys) = shown_percentages xs @ shown_percentages ys"
  by (induction xs rule: shown_percentages.induct) simp_all

lemma shown_percentages_percent:
  "shown_percentages (map (\<lambda>(condition, probability). St_write_percent condition probability) probs) = probs"
  by (induction probs) auto

lemma shown_percentages_closing: "shown_percentages (closing_warning vs m) = []"
  unfolding closing_warning_def by simp

lemma diagnose_nonempty:
  assumes "sel \<noteq> []" "score sel = Inr probs"
  shows "\<exists>m. py_max (map snd probs) = Inr m \<and>
           diagnose sel =
             ([St_write (''Selected Symptoms: '' @ join '', '' sel), St_write ''Diagnosis Result:'']
                @ map (\<lambda>(condition, probability). St_write_percent condition probability) probs
                @ closing_warning (map snd probs) m, None)"
proof -
  obtain m where "py_max (map snd probs) = Inr m"
    using assms(2) unfolding score_unfold by auto
  then show ?thesis
    using assms unfolding diagnose_def by simp
qed

lemma shown_percentages_diagnose:
  assumes "sel \<noteq> []" "score sel = Inr probs"
  shows "shown_percentages (fst (diagnose sel)) = probs"
  using diagnose_nonempty [OF assms]
  by (auto simp: shown_percentages_append shown_percentages_percent shown_percentages_closing)

lemma shown_warnings_diagnose:
  assumes "sel \<noteq> []" "score sel = Inr probs" "py_max (map snd probs) = Inr m"
  shows "shown_warnings (fst (diagnose sel)) = shown_warnings (closing_warning (map snd probs) m)"
  using diagnose_nonempty [OF assms(1,2)] assms(3)
  by (auto simp: shown_warnings_append shown_warnings_percent)



lemma selection_two:
  "selected_of (build_symptom_selection symptoms (\<lambda>s. s \<in> {''Headaches'', ''Seizures''}))
     = [''Headaches'', ''Seizures'']"
  unfolding selected_of_def build_symptom_selection_def symptoms_def by simp

lemma selection_none: "selected_of (build_symptom_selection symptoms (\<lambda>s. False)) = []"
  unfolding selected_of_def build_symptom_selection_def symptoms_def by simp

lemma add_checkboxes_distinct:
  "distinct (map fst acc) \<Longrightarrow> distinct (map fst (add_checkboxes checkbox sl acc))"
  by (induction sl arbitrary: acc) auto

lemma fold_add_checkboxes_distinct:
  "distinct (map fst acc) \<Longrightarrow>
     distinct (map fst (fold (\<lambda>sl acc. add_checkboxes checkbox sl acc) sls acc))"
  by (induction sls arbitrary: acc) (simp_all add: add_checkboxes_distinct)

lemma form_selection_distinct:
  "distinct (selected_of (build_symptom_selection table checkbox))"
proof -
  have "distinct (map fst (build_symptom_selection table checkbox))"
    unfolding build_symptom_selection_def by (rule fold_add_checkboxes_distinct) simp
  then show ?thesis
    unfolding selected_of_def by (rule distinct_map_filter)
qed

lemma py_max_Max: "xs \<noteq> [] \<Longrightarrow> py_max xs = Inr (Max (set xs))"
proof (cases xs)
  case Nil
  assume "xs \<noteq> []"
  with Nil show ?thesis by simp
next
  case (Cons a list)
  then show ?thesis using Max.set_eq_fold [of a list] by simp
qed






section \<open>The claims about the scorer\<close>




text \<open>
  C4.  For every non-empty selection without repetitions, the scorer computes for each of
  the four conditions, in the order of the table, the percentage of the spec (the
  condition's listed symptoms that are selected, over the number listed, times 100,
  each condition on its own), and shows the percentage of every condition.
\<close>

theorem score_is_per_condition_percentage:
  assumes "selected_symptoms \<noteq> []" and "distinct selected_symptoms"
  shows "score selected_symptoms =
           Inr (map (\<lambda>(condition, symptom_list).
                       (condition, spec_percentage (set selected_symptoms) symptom_list)) symptoms) \<and>
         shown_percentages (fst (diagnose selected_symptoms)) =
           map (\<lambda>(condition, symptom_list).
                  (condition, spec_percentage (set selected_symptoms) symptom_list)) symptoms \<and>
         snd (diagnose selected_symptoms) = None"
proof -
  let ?spec = "map (\<lambda>(condition, symptom_list).
                  (condition, spec_percentage (set selected_symptoms) symptom_list)) symptoms"
  have "map (\<lambda>(condition, symptom_list). (condition, probability_of selected_symptoms symptom_list)) symptoms
          = ?spec"
  proof (rule map_cong [OF refl])
    fix entry assume "entry \<in> set symptoms"
    then have "distinct (snd entry)"
      using symptom_lists_distinct [of "fst entry" "snd entry"] by simp
    from probability_of_spec [OF assms(2) this]
    show "(case entry of (condition, symptom_list) \<Rightarrow>
             (condition, probability_of selected_symptoms symptom_list)) =
          (case entry of (condition, symptom_list) \<Rightarrow>
             (condition, spec_percentage (set selected_symptoms) symptom_list))"
      by (simp add: case_prod_beta)
  qed
  then have sc: "score selected_symptoms = Inr ?spec"
    by (simp add: score_map)
  from shown_percentages_diagnose [OF assms(1) sc] diagnose_nonempty [OF assms(1) sc] sc
  show ?thesis by auto
qed

theorem score_is_per_condition_percentage_witness:
  "[''Headaches''] \<noteq> [] \<and> distinct [''Headaches''] \<and>
   shown_percentages (fst (diagnose [''Headaches''])) =
     [(''Glioma'', 100 / 7), (''Meningioma'', 100 / 7), (''No Tumor'', 0),
      (''Pituitary Tumor'', 100 / 7)]"
  using score_is_per_condition_percentage [of "[''Headaches'']"]
  by (simp add: symptoms_def spec_percentage_def)

text \<open>
  C5.  Selecting exactly "Headaches" and "Seizures" gives Glioma and Meningioma the same
  percentage, which is the greatest, and the scorer shows the tie warning; the same
  through the form with exactly these two boxes ticked.
\<close>

theorem headaches_seizures_tie:
  "diagnose [''Headaches'', ''Seizures''] =
     ([St_write ''Selected Symptoms: Headaches, Seizures'', St_write ''Diagnosis Result:'',
       St_write_percent ''Glioma'' (200 / 7), St_write_percent ''Meningioma'' (200 / 7),
       St_write_percent ''No Tumor'' 0, St_write_percent ''Pituitary Tumor'' (100 / 7),
       St_warning clash_message], None) \<and>
   diagnosis_test (\<lambda>s. s \<in> {''Headaches'', ''Seizures''}) True = diagnose [''Headaches'', ''Seizures''] \<and>
   shown_warnings (fst (diagnose [''Seizures'', ''Headaches''])) = [clash_message]"
proof -
  have a: "diagnose [''Headaches'', ''Seizures''] =
     ([St_write ''Selected Symptoms: Headaches, Seizures'', St_write ''Diagnosis Result:'',
       St_write_percent ''Glioma'' (200 / 7), St_write_percent ''Meningioma'' (200 / 7),
       St_write_percent ''No Tumor'' 0, St_write_percent ''Pituitary Tumor'' (100 / 7),
       St_warning clash_message], None)"
    unfolding diagnose_def score_unfold symptoms_def probability_of_def match_count_def
      closing_warning_def
    by simp
  have b: "diagnosis_test (\<lambda>s. s \<in> {''Headaches'', ''Seizures''}) True
             = diagnose [''Headaches'', ''Seizures'']"
    by (simp only: diagnosis_test_def Let_def selection_two if_True)
  have c: "shown_warnings (fst (diagnose [''Seizures'', ''Headaches''])) = [clash_message]"
    unfolding diagnose_def score_unfold symptoms_def probability_of_def match_count_def
      closing_warning_def
    by simp
  from a b c show ?thesis by simp
qed

text \<open>
  C6.  With nothing selected the request is turned down with the "select at least one"
  warning and nothing else: no percentage is computed or shown, from the list itself and
  from the form with no box ticked.
\<close>

theorem empty_selection_rejected:
  "diagnose [] = ([St_warning select_one_message], None) \<and>
   shown_percentages (fst (diagnose [])) = [] \<and>
   diagnosis_test (\<lambda>s. False) True = ([St_warning select_one_message], None)"
  unfolding diagnosis_test_def by (simp add: selection_none diagnose_def)

text \<open>
  C7.  The percentages are a function of the selected set alone: two selections that are
  permutations of each other get the same percentage mapping, shown percentages and
  warnings.  The block reads only the table, which it never writes, and assigns
  \<open>probabilities\<close> and \<open>max_prob\<close> afresh before reading them, so the model has no state to
  carry from one call to the next and a second call with the same selection is the same
  value.
\<close>

theorem score_order_independent:
  assumes "mset selected = mset selected'"
  shows "score selected = score selected' \<and>
         shown_percentages (fst (diagnose selected)) = shown_percentages (fst (diagnose selected')) \<and>
         shown_warnings (fst (diagnose selected)) = shown_warnings (fst (diagnose selected')) \<and>
         snd (diagnose selected) = snd (diagnose selected')"
proof -
  have sc: "score selected = score selected'"
    unfolding score_unfold using probability_of_perm [OF assms] by simp
  show ?thesis
  proof (cases "selected = []")
    case True
    with assms have "selected' = []" by simp
    with True sc show ?thesis by simp
  next
    case False
    with assms have ne': "selected' \<noteq> []" by auto
    obtain probs where p: "score selected = Inr probs" unfolding score_unfold by simp
    with sc have p': "score selected' = Inr probs" by simp
    from diagnose_nonempty [OF False p] obtain m where
      m: "py_max (map snd probs) = Inr m" and d: "snd (diagnose selected) = None" by auto
    from diagnose_nonempty [OF ne' p'] have d': "snd (diagnose selected') = None" by auto
    from shown_percentages_diagnose [OF False p] shown_percentages_diagnose [OF ne' p']
      shown_warnings_diagnose [OF False p m] shown_warnings_diagnose [OF ne' p' m] sc d d'
    show ?thesis by simp
  qed
qed

theorem score_order_independent_witness:
  "mset [''Headaches'', ''Fatigue''] = mset [''Fatigue'', ''Headaches''] \<and>
   score [''Headaches'', ''Fatigue''] = score [''Fatigue'', ''Headaches''] \<and>
   shown_percentages (fst (diagnose [''Headaches'', ''Fatigue''])) =
     shown_percentages (fst (diagnose [''Fatigue'', ''Headaches'']))"
proof -
  have h: "mset [''Headaches'', ''Fatigue''] = mset [''Fatigue'', ''Headaches'']"
    by (simp add: add_mset_commute)
  from score_order_independent [OF h] h show ?thesis by simp
qed

section \<open>Facts about the image pipeline\<close>

lemma index_of_first:
  "v \<in> set xs \<Longrightarrow>
     index_of v xs < length xs \<and> xs ! index_of v xs = v \<and> (\<forall>j < index_of v xs. xs ! j \<noteq> v)"
proof (induction xs)
  case Nil
  then show ?case by simp
next
  case (Cons x xs)
  show ?case
  proof (cases "x = v")
    case True
    then show ?thesis by simp
  next
    case False
    with Cons.prems have "v \<in> set xs" by simp
    from Cons.IH [OF this] False show ?thesis
      by (auto simp: nth_Cons split: nat.splits)
  qed
qed

lemma inference_value:
  assumes "model_predict w t = Inr [v]" "v \<noteq> []" "index_of (Max (set v)) v < length categories"
  shows "inference w t = Inr (categories ! index_of (Max (set v)) v, Max (set v))"
  using assms unfolding inference_def np_argmax_def list_get_def
  by (simp add: py_max_Max)

lemma inference_model_raises: "model_predict w t = Inl e \<Longrightarrow> inference w t = Inl e"
  unfolding inference_def by simp














section \<open>The claims about the image pipeline\<close>

text \<open>
  C1.  Whenever the model answers with one probability vector of length 4 (a batch of one),
  \<open>predict\<close> shows nothing and returns as confidence the greatest element of the vector
  and as category the entry of the fixed list
  \<open>[glioma, meningioma, no tumor, pituitary]\<close> at the first position where that greatest
  element stands.
\<close>

theorem predict_argmax:
  assumes "model_predict w (preprocess_image w picture) = Inr [v]" and "length v = 4"
  shows "\<exists>i<4. v ! i = Max (set v) \<and> (\<forall>j<i. v ! j \<noteq> Max (set v)) \<and>
           predict w picture = ([], Some (categories ! i), Some (Max (set v)))"
proof -
  let ?m = "Max (set v)"
  let ?i = "index_of ?m v"
  from assms(2) have ne: "v \<noteq> []" by auto
  then have "?m \<in> set v" by simp
  from index_of_first [OF this] assms(2)
  have i: "?i < 4" "v ! ?i = ?m" "\<forall>j<?i. v ! j \<noteq> ?m" by simp_all
  have "?i < length categories" using i(1) by (simp add: categories_def)
  from inference_value [OF assms(1) ne this]
  have "predict w picture = ([], Some (categories ! ?i), Some ?m)"
    unfolding predict_def by simp
  with i show ?thesis by blast
qed

theorem predict_argmax_witness:
  "model_predict toy_world (preprocess_image toy_world toy_picture) = Inr [[1 / 10, 7 / 10, 1 / 10, 1 / 10]] \<and>
   length [1 / 10, 7 / 10, 1 / 10, 1 / (10::rat)] = 4 \<and>
   predict toy_world toy_picture = ([], Some ''meningioma'', Some (7 / 10))"
proof -
  let ?v = "[1 / 10, 7 / 10, 1 / 10, 1 / (10::rat)]"
  have h: "model_predict toy_world (preprocess_image toy_world toy_picture) = Inr [?v]"
    by (simp add: toy_world_def)
  have m: "Max (set ?v) = 7 / 10" by simp
  from predict_argmax [OF h] obtain i where
    i: "i < 4" "?v ! i = Max (set ?v)"
      "predict toy_world toy_picture = ([], Some (categories ! i), Some (Max (set ?v)))"
    by auto
  from i(1) have "i = 0 \<or> i = 1 \<or> i = 2 \<or> i = 3" by arith
  with i(2) m have "i = 1" by auto
  with i(3) m h show ?thesis by (simp add: categories_def)
qed



text \<open>
  C8.  When anything in the classifier's \<open>try\<close> block raises (the model's \<open>predict\<close>, or
  the reading of its answer), \<open>predict\<close> reports the error and returns \<open>None\<close> for both
  the category and the confidence; the caller then shows nothing more: on an accepted
  upload the run ends after the picture and the error message, with no event of the
  explanation, the lookup or the speech.
\<close>

theorem inference_failure_short_circuits:
  assumes "inference w (preprocess_image w picture) = Inl e"
  shows "predict w picture = ([St_error (''Error in prediction: '' @ exn_str e)], None, None) \<and>
         on_predict_pressed w picture = ([St_error (''Error in prediction: '' @ exn_str e)], None) \<and>
         (snd (is_valid_mri w file) \<and> image_open w file = Inr picture \<longrightarrow>
            tumor_detection w (Some file) True =
              ([St_image, St_error (''Error in prediction: '' @ exn_str e)], None) \<and>
            filter downstream (fst (tumor_detection w (Some file) True)) = [])"
proof -
  have p: "predict w picture = ([St_error (''Error in prediction: '' @ exn_str e)], None, None)"
    using assms unfolding predict_def by simp
  then have o: "on_predict_pressed w picture = ([St_error (''Error in prediction: '' @ exn_str e)], None)"
    unfolding on_predict_pressed_def by simp
  have v: "fst (is_valid_mri w file) = []" if "snd (is_valid_mri w file)"
    using that unfolding is_valid_mri_def by (auto split: sum.splits)
  show ?thesis
    using p o v unfolding tumor_detection_def
    by (auto split: prod.splits)
qed

theorem inference_failure_short_circuits_witness:
  "inference failing_world (preprocess_image failing_world toy_picture) = Inl (LibraryError ''out of memory'') \<and>
   snd (is_valid_mri failing_world ''photo.jpg'') \<and> image_open failing_world ''photo.jpg'' = Inr toy_picture \<and>
   predict failing_world toy_picture = ([St_error ''Error in prediction: out of memory''], None, None) \<and>
   tumor_detection failing_world (Some ''photo.jpg'') True =
     ([St_image, St_error ''Error in prediction: out of memory''], None)"
proof -
  have h: "inference failing_world (preprocess_image failing_world toy_picture) = Inl (LibraryError ''out of memory'')"
    by (rule inference_model_raises) (simp add: failing_world_def)
  have v: "snd (is_valid_mri failing_world ''photo.jpg'')"
    by (simp add: is_valid_mri_def dicom_attempt_def failing_world_def toy_world_def)
  have i: "image_open failing_world ''photo.jpg'' = Inr toy_picture"
    by (simp add: failing_world_def toy_world_def)
  from inference_failure_short_circuits [OF h, of "''photo.jpg''"] h v i show ?thesis by simp
qed

text \<open>
  C9.  The validator returns a boolean and its messages for every file, with no exception
  left to the caller.  It accepts exactly when the structured parse succeeds with the
  modality tag \<open>MR\<close>, or the parse attempt fails and the generic image decode succeeds.
  The parse attempt is the body of the outer \<open>try\<close>: it fails when reading the container
  raises or when the container read carries no modality tag.  In every other case the
  validator rejects; a warning with the decoder's error text is shown exactly when both
  the parse attempt and the image decode fail.
\<close>

theorem is_valid_mri_total:
  "(snd (is_valid_mri w file) \<longleftrightarrow>
      dicom_attempt w file = Inr True \<or> (isl (dicom_attempt w file) \<and> \<not> isl (image_open w file))) \<and>
   (dicom_attempt w file = Inr True \<longleftrightarrow> (\<exists>ds. dcmread w file = Inr ds \<and> Modality ds = Some ''MR'')) \<and>
   (isl (dicom_attempt w file) \<longleftrightarrow>
      isl (dcmread w file) \<or> (\<exists>ds. dcmread w file = Inr ds \<and> Modality ds = None)) \<and>
   fst (is_valid_mri w file) =
     (if isl (dicom_attempt w file) \<and> isl (image_open w file)
      then [St_warning (''Image validation failed: '' @ exn_str (projl (image_open w file)))]
      else [])"
  unfolding is_valid_mri_def dicom_attempt_def
  by (auto split: sum.splits option.splits)

theorem is_valid_mri_total_witness:
  "is_valid_mri toy_world ''scan.dcm'' = ([], True) \<and>
   is_valid_mri toy_world ''photo.jpg'' = ([], True) \<and>
   is_valid_mri toy_world ''notes.txt'' = ([St_warning ''Image validation failed: cannot identify image file''], False)"
proof -
  have d0: "dicom_attempt toy_world ''scan.dcm'' = Inr True"
    by (simp add: dicom_attempt_def toy_world_def)
  have d1: "dicom_attempt toy_world ''photo.jpg'' = Inl (AttributeError ''Modality'')"
    "image_open toy_world ''photo.jpg'' = Inr toy_picture"
    by (simp_all add: dicom_attempt_def toy_world_def)
  have d2: "dicom_attempt toy_world ''notes.txt'' = Inl (LibraryError ''unreadable'')"
    "image_open toy_world ''notes.txt'' = Inl (LibraryError ''cannot identify image file'')"
    by (simp_all add: dicom_attempt_def toy_world_def)
  have a: "is_valid_mri toy_world ''scan.dcm'' = ([], True)"
    using is_valid_mri_total [of toy_world "''scan.dcm''"] by (simp add: d0 prod_eq_iff)
  have b: "is_valid_mri toy_world ''photo.jpg'' = ([], True)"
    using is_valid_mri_total [of toy_world "''photo.jpg''"] by (simp add: d1 prod_eq_iff)
  have c: "is_valid_mri toy_world ''notes.txt'' = ([St_warning ''Image validation failed: cannot identify image file''], False)"
    using is_valid_mri_total [of toy_world "''notes.txt''"] by (simp add: d2 prod_eq_iff)
  from a b c show ?thesis by simp
qed




end
